theory Spec2Isabelle
  imports Main
begin

section \<open>Python values and exceptions\<close>

text \<open>
  The values that \<^verbatim>\<open>response.json()\<close> can yield and that the request payload is built
  from. A dict holds its items in insertion order and is read with \<open>map_of\<close>; the keys of
  a JSON object are strings. Floats are present but opaque: no operation of the program
  looks inside one.
\<close>

typedecl pyfloat

datatype pyval =
    PyNone
  | PyBool bool
  | PyInt int
  | PyFloat pyfloat
  | PyStr string
  | PyList "pyval list"
  | PyDict "(string \<times> pyval) list"

text \<open>
  The exception classes that take part in the control flow of the program. A constructor
  stands for its class together with its subclasses, which is how an \<^verbatim>\<open>except\<close>
  clause matches. \<open>RuntimeError\<close> carries \<^verbatim>\<open>str(e)\<close>, \<open>HTTPStatusError\<close> carries
  \<^verbatim>\<open>e.response.status_code\<close>, \<open>RequestError\<close> carries \<^verbatim>\<open>str(e)\<close>.
  \<open>JSONDecodeError\<close> and \<open>ValidationError\<close> are subclasses of \<^verbatim>\<open>ValueError\<close>;
  \<open>OtherException\<close> is any further subclass of \<^verbatim>\<open>Exception\<close> that is none of the
  classes named here.
\<close>

datatype pyexc =
    RuntimeError string
  | HTTPStatusError int
  | RequestError string
  | KeyError
  | IndexError
  | TypeError
  | JSONDecodeError
  | ValidationError
  | OtherException string

text \<open>Sequencing of statements that may raise: the first exception ends the block.\<close>

definition and_then :: "pyexc + 'a \<Rightarrow> ('a \<Rightarrow> pyexc + 'b) \<Rightarrow> pyexc + 'b" where
  "and_then r f = (case r of Inl e \<Rightarrow> Inl e | Inr v \<Rightarrow> f v)"

text \<open>
  Subscription \<^verbatim>\<open>v[k]\<close>. A dict raises \<^verbatim>\<open>KeyError\<close> for an absent key (an integer is
  never a key of a JSON object); a list and a string take integer indices, negative ones
  counting from the end, and raise \<^verbatim>\<open>IndexError\<close> out of range and
  \<^verbatim>\<open>TypeError\<close> for a string index; \<^verbatim>\<open>None\<close>, booleans and numbers are not
  subscriptable.
\<close>

datatype pykey = KStr string | KInt int

definition seq_index :: "'a list \<Rightarrow> int \<Rightarrow> pyexc + 'a" where
  "seq_index xs i =
     (if 0 \<le> i \<and> i < int (length xs) then Inr (xs ! nat i)
      else if i < 0 \<and> - int (length xs) \<le> i then Inr (xs ! nat (int (length xs) + i))
      else Inl IndexError)"

fun getitem :: "pyval \<Rightarrow> pykey \<Rightarrow> pyexc + pyval" where
  "getitem (PyDict kvs) (KStr k) =
     (case map_of kvs k of None \<Rightarrow> Inl KeyError | Some v \<Rightarrow> Inr v)"
| "getitem (PyDict kvs) (KInt i) = Inl KeyError"
| "getitem (PyList xs) (KInt i) = seq_index xs i"
| "getitem (PyList xs) (KStr k) = Inl TypeError"
| "getitem (PyStr s) (KInt i) = and_then (seq_index s i) (\<lambda>c. Inr (PyStr [c]))"
| "getitem (PyStr s) (KStr k) = Inl TypeError"
| "getitem PyNone k = Inl TypeError"
| "getitem (PyBool b) k = Inl TypeError"
| "getitem (PyInt n) k = Inl TypeError"
| "getitem (PyFloat x) k = Inl TypeError"

text \<open>\<^verbatim>\<open>str(n)\<close> for an integer, as an f-string renders it: decimal, with a minus sign.\<close>

definition digit_char :: "nat \<Rightarrow> char" where
  "digit_char d = ''0123456789'' ! (d mod 10)"

fun digits :: "nat \<Rightarrow> string" where
  "digits n = (if n < 10 then [digit_char n] else digits (n div 10) @ [digit_char (n mod 10)])"

declare digits.simps [simp del]

definition str_int :: "int \<Rightarrow> string" where
  "str_int i = (if i < 0 then CHR ''-'' # digits (nat (- i)) else digits (nat i))"

section \<open>Configuration (app/core/config.py)\<close>

record settings =
  llm_api_key :: string
  llm_base_url :: string
  llm_model :: string
  api_timeout :: int
  llm_provider :: string

text \<open>
  \<^verbatim>\<open>Settings()\<close> as the settings library evaluates the class. The sources are the
  process environment and the \<^verbatim>\<open>.env\<close> file, the environment first; with
  \<^verbatim>\<open>case_sensitive=False\<close> the names of both are lower-cased before a field is looked
  up by its own name, a later variable replacing an earlier one of the same lower-cased
  name; names that belong to no field are never looked up (\<^verbatim>\<open>extra="ignore"\<close>). A
  field without a value takes its default, and a field without value and default fails
  validation. The validation of the text of an integer field is the library's and is a
  parameter here. Lower-casing acts on the letters A to Z, which is what the names of the
  fields need.
\<close>

definition lower_char :: "char \<Rightarrow> char" where
  "lower_char c =
     (case map_of (zip ''ABCDEFGHIJKLMNOPQRSTUVWXYZ'' ''abcdefghijklmnopqrstuvwxyz'') c of
        Some l \<Rightarrow> l
      | None \<Rightarrow> c)"

definition lower :: "string \<Rightarrow> string" where
  "lower name = map lower_char name"

definition parse_env_vars :: "(string \<times> string) list \<Rightarrow> (string \<rightharpoonup> string)" where
  "parse_env_vars vars = map_of (rev (map (\<lambda>(k, v). (lower k, v)) vars))"

definition field_value ::
  "(string \<times> string) list \<Rightarrow> (string \<times> string) list \<Rightarrow> string \<Rightarrow> string option" where
  "field_value environ dotenv name =
     (case parse_env_vars environ name of
        Some v \<Rightarrow> Some v
      | None \<Rightarrow> parse_env_vars dotenv name)"

definition Settings_init ::
  "(string \<Rightarrow> int option) \<Rightarrow> (string \<times> string) list \<Rightarrow> (string \<times> string) list
     \<Rightarrow> pyexc + settings" where
  "Settings_init int_validate environ dotenv =
     (case (field_value environ dotenv ''llm_api_key'',
            field_value environ dotenv ''llm_base_url'',
            field_value environ dotenv ''llm_model'',
            (case field_value environ dotenv ''api_timeout'' of
               None \<Rightarrow> Some 60
             | Some t \<Rightarrow> int_validate t)) of
        (Some k, Some u, Some m, Some t) \<Rightarrow>
          Inr \<lparr>llm_api_key = k, llm_base_url = u, llm_model = m, api_timeout = t,
               llm_provider = (case field_value environ dotenv ''llm_provider'' of
                                 None \<Rightarrow> ''generic''
                               | Some p \<Rightarrow> p)\<rparr>
      | _ \<Rightarrow> Inl ValidationError)"

section \<open>The HTTP library as the client uses it\<close>

text \<open>
  \<^verbatim>\<open>httpx.AsyncClient\<close>: built without I/O in the state \<open>UNOPENED\<close>, \<open>OPENED\<close> by
  its first request, \<open>CLOSED\<close> by \<^verbatim>\<open>aclose()\<close>. A request on a closed client raises
  \<^verbatim>\<open>RuntimeError\<close> before anything is sent; \<^verbatim>\<open>aclose()\<close> on a closed client does
  nothing.
\<close>

datatype client_state = UNOPENED | OPENED | CLOSED

record async_client =
  ac_base_url :: string
  ac_headers :: "(string \<times> string) list"
  ac_timeout :: int
  ac_state :: client_state

record http_request =
  rq_base_url :: string
  rq_headers :: "(string \<times> string) list"
  rq_path :: string
  rq_json :: pyval

text \<open>
  \<^verbatim>\<open>httpx.Response\<close>: the status code and what \<^verbatim>\<open>json.loads\<close> makes of the body,
  \<open>None\<close> when the body is not JSON.
\<close>

record http_response =
  status_code :: int
  body :: "pyval option"

text \<open>
  The upstream provider and the network in front of it: what a request put on the wire
  comes back as, a response or an exception raised by \<^verbatim>\<open>post\<close>.
\<close>

type_synonym upstream = "http_request \<Rightarrow> pyexc + http_response"

text \<open>
  The observable effects of a run, in order: a client object constructed, a connection
  object acquired, a request sent, the connection released.
\<close>

datatype event =
    NewLLMClient
  | NewAsyncClient string "(string \<times> string) list" int
  | POST http_request
  | Released

text \<open>
  The constructor \<^verbatim>\<open>httpx.AsyncClient(base_url=..., headers=..., timeout=...)\<close> does no
  I/O, but it checks its arguments and raises for some of them (a base URL that is not a
  valid URL, a header value that cannot be encoded). Which arguments it refuses is the
  library's and is a parameter here: the exception raised for the arguments, or \<open>None\<close>
  when the client object is built.
\<close>

type_synonym client_check = "string \<Rightarrow> (string \<times> string) list \<Rightarrow> int \<Rightarrow> pyexc option"

definition AsyncClient_init ::
  "client_check \<Rightarrow> string \<Rightarrow> (string \<times> string) list \<Rightarrow> int \<Rightarrow> event list
     \<Rightarrow> (pyexc + async_client) \<times> event list" where
  "AsyncClient_init chk b hs t tr =
     (case chk b hs t of
        Some e \<Rightarrow> (Inl e, tr)
      | None \<Rightarrow>
          (Inr \<lparr>ac_base_url = b, ac_headers = hs, ac_timeout = t, ac_state = UNOPENED\<rparr>,
           tr @ [NewAsyncClient b hs t]))"

definition build_request :: "async_client \<Rightarrow> string \<Rightarrow> pyval \<Rightarrow> http_request" where
  "build_request ac path js =
     \<lparr>rq_base_url = ac_base_url ac, rq_headers = ac_headers ac, rq_path = path, rq_json = js\<rparr>"

definition post ::
  "upstream \<Rightarrow> async_client \<Rightarrow> string \<Rightarrow> pyval \<Rightarrow> event list
     \<Rightarrow> (pyexc + http_response) \<times> async_client \<times> event list" where
  "post up ac path js tr =
     (if ac_state ac = CLOSED
      then (Inl (RuntimeError ''Cannot send a request, as the client has been closed.''), ac, tr)
      else
        let rq = build_request ac path js
        in (up rq, ac\<lparr>ac_state := OPENED\<rparr>, tr @ [POST rq]))"

definition aclose :: "async_client \<Rightarrow> event list \<Rightarrow> async_client \<times> event list" where
  "aclose ac tr =
     (if ac_state ac = CLOSED then (ac, tr)
      else (ac\<lparr>ac_state := CLOSED\<rparr>, tr @ [Released]))"

text \<open>\<^verbatim>\<open>raise_for_status\<close> raises for every status outside 200..299.\<close>

definition is_success :: "http_response \<Rightarrow> bool" where
  "is_success r = (200 \<le> status_code r \<and> status_code r \<le> 299)"

definition raise_for_status :: "http_response \<Rightarrow> pyexc + http_response" where
  "raise_for_status r = (if is_success r then Inr r else Inl (HTTPStatusError (status_code r)))"

definition response_json :: "http_response \<Rightarrow> pyexc + pyval" where
  "response_json r = (case body r of None \<Rightarrow> Inl JSONDecodeError | Some v \<Rightarrow> Inr v)"

section \<open>The LLM client (app/services/llm_client.py)\<close>

record llm_client =
  base_url :: string
  api_key :: string
  model_name :: string
  timeout :: int
  client :: "async_client option"

definition LLMClient_init :: "settings \<Rightarrow> llm_client" where
  "LLMClient_init s =
     \<lparr>base_url = llm_base_url s, api_key = llm_api_key s, model_name = llm_model s,
      timeout = api_timeout s, client = None\<rparr>"

text \<open>
  \<open>aenter\<close> stores the connection object it constructs; when the constructor raises,
  nothing is stored and the exception leaves \<open>aenter\<close>.
\<close>

definition aenter ::
  "client_check \<Rightarrow> llm_client \<Rightarrow> event list \<Rightarrow> (pyexc + llm_client) \<times> event list" where
  "aenter chk self tr =
     (let hs = [(''Authorization'', ''Bearer '' @ api_key self),
                (''Content-Type'', ''application/json'')];
          (r, tr') = AsyncClient_init chk (base_url self) hs (timeout self) tr
      in (case r of
            Inl e \<Rightarrow> (Inl e, tr')
          | Inr ac \<Rightarrow> (Inr (self\<lparr>client := Some ac\<rparr>), tr')))"

definition aexit :: "llm_client \<Rightarrow> event list \<Rightarrow> llm_client \<times> event list" where
  "aexit self tr =
     (case client self of
        None \<Rightarrow> (self, tr)
      | Some ac \<Rightarrow> (let (ac', tr') = aclose ac tr in (self\<lparr>client := Some ac'\<rparr>, tr')))"

definition payload :: "llm_client \<Rightarrow> string \<Rightarrow> pyval" where
  "payload self prompt =
     PyDict [(''model'', PyStr (model_name self)),
             (''messages'', PyList [PyDict [(''role'', PyStr ''user''),
                                            (''content'', PyStr prompt)]])]"

text \<open>The statements of the \<^verbatim>\<open>try\<close> block that follow the request.\<close>

definition try_body :: "http_response \<Rightarrow> pyexc + pyval" where
  "try_body resp =
     and_then (raise_for_status resp) (\<lambda>ok.
     and_then (response_json resp) (\<lambda>data.
     and_then (getitem data (KStr ''choices'')) (\<lambda>choices.
     and_then (getitem choices (KInt 0)) (\<lambda>choice.
     and_then (getitem choice (KStr ''message'')) (\<lambda>message.
     getitem message (KStr ''content''))))))"

text \<open>The \<^verbatim>\<open>except\<close> clauses of \<open>generate\<close>, in order; anything else propagates.\<close>

fun generate_except :: "pyexc \<Rightarrow> pyexc" where
  "generate_except (HTTPStatusError code) = RuntimeError (''LLM API error: '' @ str_int code)"
| "generate_except (RequestError msg) = RuntimeError (''Request failed: '' @ msg)"
| "generate_except KeyError = RuntimeError ''Invalid response format from LLM API''"
| "generate_except IndexError = RuntimeError ''Invalid response format from LLM API''"
| "generate_except e = e"

definition not_opened_msg :: string where
  "not_opened_msg = ''LLMClient must be used as an async context manager''"

definition generate ::
  "upstream \<Rightarrow> llm_client \<Rightarrow> string \<Rightarrow> event list
     \<Rightarrow> (pyexc + pyval) \<times> llm_client \<times> event list" where
  "generate up self prompt tr =
     (case client self of
        None \<Rightarrow> (Inl (RuntimeError not_opened_msg), self, tr)
      | Some ac \<Rightarrow>
          (let (r, ac', tr') = post up ac ''/v1/chat/completions'' (payload self prompt) tr;
               res = (case and_then r try_body of
                        Inl e \<Rightarrow> Inl (generate_except e)
                      | Inr v \<Rightarrow> Inr v)
           in (res, self\<lparr>client := Some ac'\<rparr>, tr')))"

definition get_llm_client :: "settings \<Rightarrow> event list \<Rightarrow> llm_client \<times> event list" where
  "get_llm_client s tr = (LLMClient_init s, tr @ [NewLLMClient])"

section \<open>Request and response schemas (app/schemas/prompt.py)\<close>

record prompt_request =
  prompt :: string

record prompt_response =
  response :: string

text \<open>
  Validation of a decoded request body against \<open>PromptRequest\<close>: an object whose
  \<^verbatim>\<open>prompt\<close> is a string of length at least 1 (\<^verbatim>\<open>min_length=1\<close>); other keys are
  ignored.
\<close>

definition PromptRequest_validate :: "pyval \<Rightarrow> pyexc + prompt_request" where
  "PromptRequest_validate v =
     (case v of
        PyDict kvs \<Rightarrow>
          (case map_of kvs ''prompt'' of
             Some (PyStr s) \<Rightarrow>
               (if 1 \<le> length s then Inr \<lparr>prompt = s\<rparr> else Inl ValidationError)
           | _ \<Rightarrow> Inl ValidationError)
      | _ \<Rightarrow> Inl ValidationError)"

text \<open>\<^verbatim>\<open>PromptResponse(response=v)\<close>: the field is declared \<^verbatim>\<open>str\<close>.\<close>

definition PromptResponse_init :: "pyval \<Rightarrow> pyexc + prompt_response" where
  "PromptResponse_init v =
     (case v of PyStr s \<Rightarrow> Inr \<lparr>response = s\<rparr> | _ \<Rightarrow> Inl ValidationError)"

section \<open>The request handler (app/api/routes.py)\<close>

datatype http_exception = HTTPException int string

text \<open>
  The \<^verbatim>\<open>async with client:\<close> block. When \<open>aenter\<close> raises, the body does not run and
  \<open>aexit\<close> is not called: the exception goes to the caller. Otherwise the body runs and
  the block leaves through \<open>aexit\<close> whether the body returned or raised; \<open>aexit\<close>
  returns \<^verbatim>\<open>None\<close>, so an exception of the body goes on to the caller.
\<close>

definition with_client ::
  "client_check \<Rightarrow> upstream \<Rightarrow> llm_client \<Rightarrow> prompt_request \<Rightarrow> event list
     \<Rightarrow> (pyexc + prompt_response) \<times> llm_client \<times> event list" where
  "with_client chk up c0 request tr0 =
     (case aenter chk c0 tr0 of
        (Inl e, tr1) \<Rightarrow> (Inl e, c0, tr1)
      | (Inr c1, tr1) \<Rightarrow>
          (let (r, c2, tr2) = generate up c1 (prompt request) tr1;
               res = and_then r PromptResponse_init;
               (c3, tr3) = aexit c2 tr2
           in (res, c3, tr3)))"

text \<open>The \<^verbatim>\<open>except\<close> clauses of the handler, in order.\<close>

fun generate_response_except :: "pyexc \<Rightarrow> http_exception" where
  "generate_response_except (RuntimeError msg) = HTTPException 502 msg"
| "generate_response_except e = HTTPException 500 ''Internal server error''"

definition generate_response ::
  "client_check \<Rightarrow> upstream \<Rightarrow> settings \<Rightarrow> prompt_request \<Rightarrow> event list
     \<Rightarrow> (http_exception + prompt_response) \<times> event list" where
  "generate_response chk up s request tr0 =
     (let (c0, tr1) = get_llm_client s tr0;
          (res, c3, tr3) = with_client chk up c0 request tr1
      in (case res of
            Inl e \<Rightarrow> (Inl (generate_response_except e), tr3)
          | Inr r \<Rightarrow> (Inr r, tr3)))"

text \<open>
  The route \<^verbatim>\<open>POST /generate\<close> as the framework runs it: the body is validated against
  \<open>PromptRequest\<close> first and the handler is called only with a valid request; an invalid
  body is answered by the framework (status 422).
\<close>

datatype http_reply = Reply int pyval | Unprocessable

definition post_generate ::
  "client_check \<Rightarrow> upstream \<Rightarrow> settings \<Rightarrow> pyval \<Rightarrow> event list
     \<Rightarrow> http_reply \<times> event list" where
  "post_generate chk up s json_body tr0 =
     (case PromptRequest_validate json_body of
        Inl e \<Rightarrow> (Unprocessable, tr0)
      | Inr request \<Rightarrow>
          (let (res, tr1) = generate_response chk up s request tr0
           in (case res of
                 Inr r \<Rightarrow> (Reply 200 (PyDict [(''response'', PyStr (response r))]), tr1)
               | Inl (HTTPException code detail) \<Rightarrow>
                   (Reply code (PyDict [(''detail'', PyStr detail)]), tr1))))"

section \<open>Fixtures for the concrete checks\<close>

text \<open>
  A configuration, a stub upstream that answers every request with one status and body,
  the success body of an OpenAI-compatible provider, a constructor that accepts all
  arguments and one that refuses a base URL, and a client that has been entered.
\<close>

definition example_settings :: settings where
  "example_settings =
     \<lparr>llm_api_key = ''sk-test'', llm_base_url = ''https://api.groq.com/openai'',
      llm_model = ''kimi-k2'', api_timeout = 60, llm_provider = ''generic''\<rparr>"

definition stub_upstream :: "int \<Rightarrow> pyval option \<Rightarrow> upstream" where
  "stub_upstream code b = (\<lambda>rq. Inr \<lparr>status_code = code, body = b\<rparr>)"

definition chat_completion :: "pyval \<Rightarrow> pyval" where
  "chat_completion content =
     PyDict [(''choices'', PyList [PyDict [(''message'', PyDict [(''content'', content)])]])]"

definition accepts_all :: client_check where
  "accepts_all = (\<lambda>b hs t. None)"

definition refuses_url :: "string \<Rightarrow> client_check" where
  "refuses_url bad = (\<lambda>b hs t. if b = bad then Some (OtherException ''InvalidURL'') else None)"

definition opened_client :: llm_client where
  "opened_client =
     (case fst (aenter accepts_all (LLMClient_init example_settings) []) of
        Inr c \<Rightarrow> c
      | Inl e \<Rightarrow> LLMClient_init example_settings)"

lemmas fixture_defs = example_settings_def stub_upstream_def chat_completion_def opened_client_def
  accepts_all_def aenter_def AsyncClient_init_def LLMClient_init_def Let_def

section \<open>How a call of \<open>generate\<close> runs\<close>

lemma opened_client_entered:
  "fst (aenter accepts_all (LLMClient_init example_settings) []) = Inr opened_client"
  by (simp add: fixture_defs)

lemma generate_unopened:
  "client self = None \<Longrightarrow> generate up self P tr = (Inl (RuntimeError not_opened_msg), self, tr)"
  by (simp add: generate_def)

lemma generate_open:
  assumes "client self = Some ac" "ac_state ac \<noteq> CLOSED"
  shows "generate up self P tr =
           ((case and_then (up (build_request ac ''/v1/chat/completions'' (payload self P))) try_body of
               Inl e \<Rightarrow> Inl (generate_except e) | Inr v \<Rightarrow> Inr v),
            self\<lparr>client := Some (ac\<lparr>ac_state := OPENED\<rparr>)\<rparr>,
            tr @ [POST (build_request ac ''/v1/chat/completions'' (payload self P))])"
  using assms by (simp add: generate_def post_def Let_def)

lemma generate_closed:
  assumes "client self = Some ac" "ac_state ac = CLOSED"
  shows "generate up self P tr =
           (Inl (RuntimeError ''Cannot send a request, as the client has been closed.''), self, tr)"
  using assms by (simp add: generate_def post_def and_then_def)

text \<open>A call that put a request on the wire was made on an open client, with that request.\<close>

lemma generate_sent:
  assumes "snd (snd (generate up self P tr)) = tr @ [POST rq]"
  shows "\<exists>ac. client self = Some ac \<and> ac_state ac \<noteq> CLOSED
              \<and> rq = build_request ac ''/v1/chat/completions'' (payload self P)"
proof (cases "client self")
  case None
  with assms show ?thesis by (simp add: generate_unopened)
next
  case (Some ac)
  show ?thesis
  proof (cases "ac_state ac = CLOSED")
    case True
    with Some assms show ?thesis by (simp add: generate_closed)
  next
    case False
    with Some assms show ?thesis by (simp add: generate_open)
  qed
qed

lemma try_body_content:
  assumes "200 \<le> status_code resp" "status_code resp \<le> 299"
    and "body resp = Some (PyDict obj)"
    and "map_of obj ''choices'' = Some (PyList (PyDict choice # others))"
    and "map_of choice ''message'' = Some (PyDict message)"
    and "map_of message ''content'' = Some v"
  shows "try_body resp = Inr v"
  using assms
  by (simp add: try_body_def and_then_def raise_for_status_def is_success_def
      response_json_def seq_index_def)

lemma try_body_status:
  assumes "\<not> (200 \<le> status_code resp \<and> status_code resp \<le> 299)"
  shows "try_body resp = Inl (HTTPStatusError (status_code resp))"
  using assms
  by (auto simp add: try_body_def and_then_def raise_for_status_def is_success_def)

text \<open>
  One handled request, start to end: the request that goes out, the outcome, and the
  effects in order.
\<close>

lemma generate_response_refused:
  assumes "chk (llm_base_url s) [(''Authorization'', ''Bearer '' @ llm_api_key s),
                (''Content-Type'', ''application/json'')] (api_timeout s) = Some e"
  shows "generate_response chk up s request tr =
           (Inl (generate_response_except e), tr @ [NewLLMClient])"
  using assms
  by (simp add: generate_response_def get_llm_client_def with_client_def aenter_def
      AsyncClient_init_def LLMClient_init_def Let_def)

lemma generate_response_run:
  assumes "chk (llm_base_url s) [(''Authorization'', ''Bearer '' @ llm_api_key s),
                (''Content-Type'', ''application/json'')] (api_timeout s) = None"
  shows "generate_response chk up s request tr =
     (let hs = [(''Authorization'', ''Bearer '' @ llm_api_key s),
                (''Content-Type'', ''application/json'')];
          rq = \<lparr>rq_base_url = llm_base_url s, rq_headers = hs,
                 rq_path = ''/v1/chat/completions'',
                 rq_json = payload (LLMClient_init s) (prompt request)\<rparr>
      in (case and_then (up rq) try_body of
            Inl e \<Rightarrow> Inl (generate_response_except (generate_except e))
          | Inr v \<Rightarrow>
              (case PromptResponse_init v of
                 Inl e \<Rightarrow> Inl (generate_response_except e)
               | Inr r \<Rightarrow> Inr r),
          tr @ [NewLLMClient, NewAsyncClient (llm_base_url s) hs (api_timeout s),
                POST rq, Released]))"
  using assms
  by (simp add: generate_response_def get_llm_client_def with_client_def aenter_def
      AsyncClient_init_def
      LLMClient_init_def generate_open [where ac = "\<lparr>ac_base_url = llm_base_url s,
        ac_headers = [(''Authorization'', ''Bearer '' @ llm_api_key s),
                (''Content-Type'', ''application/json'')], ac_timeout = api_timeout s,
        ac_state = UNOPENED\<rparr>"] aexit_def aclose_def build_request_def payload_def
      Let_def and_then_def split: sum.splits)

text \<open>A handled request that sent a request had its connection object constructed.\<close>

lemma generate_response_sent:
  assumes "POST rq \<in> set (snd (generate_response chk up s request []))"
  shows "chk (llm_base_url s) [(''Authorization'', ''Bearer '' @ llm_api_key s),
                (''Content-Type'', ''application/json'')] (api_timeout s) = None"
proof (cases "chk (llm_base_url s) [(''Authorization'', ''Bearer '' @ llm_api_key s),
                (''Content-Type'', ''application/json'')] (api_timeout s)")
  case None
  then show ?thesis .
next
  case (Some e)
  with assms show ?thesis by (simp add: generate_response_refused)
qed

section \<open>Successful generation\<close>

text \<open>
  Claim C1. Whenever a call of \<open>generate\<close> put a request on the wire (so the client was
  open) and the upstream answered it with a 2xx status and a body whose
  \<^verbatim>\<open>choices[0].message.content\<close> is the string \<open>R\<close>, the call returns exactly \<open>R\<close>:
  nothing is trimmed or re-encoded. This holds for every prompt and every \<open>R\<close>, the
  empty string included, which is returned as a success.
\<close>

theorem generate_returns_content_verbatim:
  assumes "snd (snd (generate up self P tr)) = tr @ [POST rq]"
    and "up rq = Inr resp"
    and "200 \<le> status_code resp" "status_code resp \<le> 299"
    and "body resp = Some (PyDict obj)"
    and "map_of obj ''choices'' = Some (PyList (PyDict choice # others))"
    and "map_of choice ''message'' = Some (PyDict message)"
    and "map_of message ''content'' = Some (PyStr R)"
  shows "fst (generate up self P tr) = Inr (PyStr R)"
proof -
  from generate_sent [OF assms(1)] obtain ac where
    ac: "client self = Some ac" "ac_state ac \<noteq> CLOSED"
      "rq = build_request ac ''/v1/chat/completions'' (payload self P)" by blast
  have "try_body resp = Inr (PyStr R)"
    using assms(3-) by (rule try_body_content)
  with ac assms(2) show ?thesis
    by (simp add: generate_open and_then_def)
qed

theorem generate_returns_content_verbatim_witness:
  "fst (generate (stub_upstream 200 (Some (chat_completion (PyStr [])))) opened_client
         ''Hello'' []) = Inr (PyStr [])
   \<and> fst (generate (stub_upstream 200 (Some (chat_completion (PyStr '' Hi there '')))) opened_client
         ''Hello'' []) = Inr (PyStr '' Hi there '')"
proof -
  let ?rq = "build_request (the (client opened_client)) ''/v1/chat/completions''
               (payload opened_client ''Hello'')"
  have sent: "snd (snd (generate (stub_upstream 200 (Some (chat_completion v))) opened_client
                ''Hello'' [])) = [] @ [POST ?rq]" for v
    by (simp add: generate_def post_def fixture_defs)
  have ans: "stub_upstream 200 (Some (chat_completion v)) ?rq =
               Inr \<lparr>status_code = 200, body = Some (chat_completion v)\<rparr>" for v
    by (simp add: stub_upstream_def)
  have shape: "body \<lparr>status_code = 200, body = Some (chat_completion v)\<rparr> =
                 Some (PyDict [(''choices'', PyList [PyDict [(''message'',
                    PyDict [(''content'', v)])]])])" for v
    by (simp add: chat_completion_def)
  have "fst (generate (stub_upstream 200 (Some (chat_completion (PyStr R)))) opened_client
          ''Hello'' []) = Inr (PyStr R)" for R
    by (rule generate_returns_content_verbatim [OF sent ans _ _ shape,
          where choice = "[(''message'', PyDict [(''content'', PyStr R)])]"
            and others = "[]" and message = "[(''content'', PyStr R)]"]) simp_all
  then show ?thesis by simp
qed

section \<open>Upstream HTTP errors\<close>

text \<open>
  Claim C2. When the upstream answers the request of a call with a status outside
  200..299, \<open>generate\<close> on the open client fails with \<open>RuntimeError\<close>, the one error
  kind of the client, and its message carries the status code in decimal; a handled
  request whose upstream call is answered that way ends in HTTP 502 with that message.
\<close>

theorem non_2xx_status_is_upstream_error:
  assumes "up rq = Inr resp"
    and "\<not> (200 \<le> status_code resp \<and> status_code resp \<le> 299)"
  shows "(snd (snd (generate up self P tr)) = tr @ [POST rq] \<longrightarrow>
            fst (generate up self P tr) =
              Inl (RuntimeError (''LLM API error: '' @ str_int (status_code resp))))
       \<and> (POST rq \<in> set (snd (generate_response chk up s request [])) \<longrightarrow>
            fst (generate_response chk up s request []) =
              Inl (HTTPException 502 (''LLM API error: '' @ str_int (status_code resp))))"
proof (intro conjI impI)
  assume sent: "snd (snd (generate up self P tr)) = tr @ [POST rq]"
  from generate_sent [OF sent] obtain ac where
    ac: "client self = Some ac" "ac_state ac \<noteq> CLOSED"
      "rq = build_request ac ''/v1/chat/completions'' (payload self P)" by blast
  from ac assms(1) try_body_status [OF assms(2)]
  show "fst (generate up self P tr) =
          Inl (RuntimeError (''LLM API error: '' @ str_int (status_code resp)))"
    by (simp add: generate_open and_then_def)
next
  assume sent: "POST rq \<in> set (snd (generate_response chk up s request []))"
  note built = generate_response_sent [OF sent]
  from sent have "up \<lparr>rq_base_url = llm_base_url s,
                 rq_headers = [(''Authorization'', ''Bearer '' @ llm_api_key s),
                               (''Content-Type'', ''application/json'')],
                 rq_path = ''/v1/chat/completions'',
                 rq_json = payload (LLMClient_init s) (prompt request)\<rparr> = Inr resp"
    using assms(1) by (simp add: generate_response_run [where chk = chk and s = s, OF built] Let_def)
  with try_body_status [OF assms(2)]
  show "fst (generate_response chk up s request []) =
          Inl (HTTPException 502 (''LLM API error: '' @ str_int (status_code resp)))"
    by (simp add: generate_response_run [where chk = chk and s = s, OF built] Let_def and_then_def)
qed

theorem non_2xx_status_is_upstream_error_witness:
  "fst (generate (stub_upstream 503 None) opened_client ''Hello'' []) =
     Inl (RuntimeError ''LLM API error: 503'')
   \<and> fst (generate_response accepts_all (stub_upstream 429 None) example_settings \<lparr>prompt = ''Hello''\<rparr> []) =
     Inl (HTTPException 502 ''LLM API error: 429'')"
proof -
  let ?rq = "build_request (the (client opened_client)) ''/v1/chat/completions''
               (payload opened_client ''Hello'')"
  have a: "stub_upstream 503 None ?rq = Inr \<lparr>status_code = 503, body = None\<rparr>"
    by (simp add: stub_upstream_def)
  have b: "\<not> (200 \<le> status_code \<lparr>status_code = 503, body = None\<rparr>
              \<and> status_code \<lparr>status_code = 503, body = None\<rparr> \<le> 299)"
    by simp
  have c: "snd (snd (generate (stub_upstream 503 None) opened_client ''Hello'' [])) = [] @ [POST ?rq]"
    by (simp add: generate_def post_def fixture_defs)
  have a': "stub_upstream 429 None ?rq = Inr \<lparr>status_code = 429, body = None\<rparr>"
    by (simp add: stub_upstream_def)
  have b': "\<not> (200 \<le> status_code \<lparr>status_code = 429, body = None\<rparr>
              \<and> status_code \<lparr>status_code = 429, body = None\<rparr> \<le> 299)"
    by simp
  have d: "POST ?rq \<in> set (snd (generate_response accepts_all (stub_upstream 429 None) example_settings
             \<lparr>prompt = ''Hello''\<rparr> []))"
    by (simp add: generate_response_run fixture_defs build_request_def payload_def)
  have s1: "str_int 503 = ''503''" by code_simp
  have s2: "str_int 429 = ''429''" by code_simp
  from non_2xx_status_is_upstream_error [where up = "stub_upstream 503 None" and rq = ?rq
        and resp = "\<lparr>status_code = 503, body = None\<rparr>"
        and self = opened_client and P = "''Hello''" and tr = "[]", OF a b] c
  have g: "fst (generate (stub_upstream 503 None) opened_client ''Hello'' []) =
     Inl (RuntimeError ''LLM API error: 503'')"
    by (simp add: s1)
  from non_2xx_status_is_upstream_error [where up = "stub_upstream 429 None" and rq = ?rq
        and resp = "\<lparr>status_code = 429, body = None\<rparr>"
        and s = example_settings and request = "\<lparr>prompt = ''Hello''\<rparr>"
        and chk = accepts_all, OF a' b'] d
  have h: "fst (generate_response accepts_all (stub_upstream 429 None) example_settings
             \<lparr>prompt = ''Hello''\<rparr> []) = Inl (HTTPException 502 ''LLM API error: 429'')"
    by (simp add: s2)
  from g h show ?thesis by simp
qed

section \<open>Malformed upstream bodies\<close>

text \<open>
  The shapes that the \<^verbatim>\<open>except (KeyError, IndexError)\<close> clause covers: in a 2xx answer
  whose body is a JSON object, a missing \<^verbatim>\<open>choices\<close> key, an empty \<^verbatim>\<open>choices\<close>
  list, a first choice without \<^verbatim>\<open>message\<close>, or a message without \<^verbatim>\<open>content\<close>.
\<close>

lemma try_body_missing_shape:
  assumes "200 \<le> status_code resp" "status_code resp \<le> 299"
    and "body resp = Some (PyDict obj)"
    and "map_of obj ''choices'' = None
         \<or> map_of obj ''choices'' = Some (PyList [])
         \<or> (\<exists>choice others. map_of obj ''choices'' = Some (PyList (PyDict choice # others))
               \<and> (map_of choice ''message'' = None
                    \<or> (\<exists>message. map_of choice ''message'' = Some (PyDict message)
                          \<and> map_of message ''content'' = None)))"
  shows "try_body resp = Inl KeyError \<or> try_body resp = Inl IndexError"
  using assms
  by (auto simp add: try_body_def and_then_def raise_for_status_def is_success_def
      response_json_def seq_index_def)

lemma missing_key_or_empty_choices_rejected:
  assumes "snd (snd (generate up self P tr)) = tr @ [POST rq]"
    and "up rq = Inr resp"
    and "200 \<le> status_code resp" "status_code resp \<le> 299"
    and "body resp = Some (PyDict obj)"
    and "map_of obj ''choices'' = None
         \<or> map_of obj ''choices'' = Some (PyList [])
         \<or> (\<exists>choice others. map_of obj ''choices'' = Some (PyList (PyDict choice # others))
               \<and> (map_of choice ''message'' = None
                    \<or> (\<exists>message. map_of choice ''message'' = Some (PyDict message)
                          \<and> map_of message ''content'' = None)))"
  shows "fst (generate up self P tr) = Inl (RuntimeError ''Invalid response format from LLM API'')"
proof -
  from generate_sent [OF assms(1)] obtain ac where
    ac: "client self = Some ac" "ac_state ac \<noteq> CLOSED"
      "rq = build_request ac ''/v1/chat/completions'' (payload self P)" by blast
  from try_body_missing_shape [OF assms(3-)] ac assms(2) show ?thesis
    by (auto simp add: generate_open and_then_def)
qed

text \<open>
  Claim C3. The claim asks that every 2xx answer without a non-empty \<^verbatim>\<open>choices\<close>
  sequence holding a text \<^verbatim>\<open>message.content\<close> fails as a malformed response. The code
  does not do that for three answers an upstream can send: a \<^verbatim>\<open>content\<close> of
  \<^verbatim>\<open>null\<close> is returned as the result, no error at all; a \<^verbatim>\<open>choices\<close> of
  \<^verbatim>\<open>null\<close> raises \<^verbatim>\<open>TypeError\<close>; a body that is not JSON raises the decoder's
  \<^verbatim>\<open>ValueError\<close>. None of them is the \<open>RuntimeError\<close> the docstring of
  \<open>generate\<close> promises for an invalid response, and a handled request ends in 500
  instead of 502.
\<close>

theorem malformed_body_escapes_error_mapping:
  "fst (generate (stub_upstream 200 (Some (chat_completion PyNone))) opened_client ''Hello'' [])
     = Inr PyNone
   \<and> fst (generate (stub_upstream 200 (Some (PyDict [(''choices'', PyNone)]))) opened_client
           ''Hello'' []) = Inl TypeError
   \<and> fst (generate (stub_upstream 200 None) opened_client ''Hello'' []) = Inl JSONDecodeError
   \<and> fst (generate_response accepts_all (stub_upstream 200 (Some (chat_completion PyNone))) example_settings
           \<lparr>prompt = ''Hello''\<rparr> []) = Inl (HTTPException 500 ''Internal server error'')"
  by (simp add: generate_def post_def fixture_defs try_body_def and_then_def
      raise_for_status_def is_success_def response_json_def seq_index_def
      generate_response_run PromptResponse_init_def)

section \<open>Error mapping of the handler\<close>

text \<open>
  Claim C4, as stated, fails: the error raised by \<open>generate\<close> on a client that was not
  opened is a \<open>RuntimeError\<close> like the upstream errors, and the first
  \<^verbatim>\<open>except\<close> clause of the handler answers it with 502 and its message, not with
  500 and the generic detail.
\<close>

theorem precondition_error_is_answered_502:
  "fst (generate (stub_upstream 200 None) (LLMClient_init example_settings) ''Hello'' [])
     = Inl (RuntimeError not_opened_msg)
   \<and> generate_response_except (RuntimeError not_opened_msg) = HTTPException 502 not_opened_msg
   \<and> generate_response_except (RuntimeError not_opened_msg)
       \<noteq> HTTPException 500 ''Internal server error''"
  by (simp add: generate_def LLMClient_init_def)

text \<open>
  Claim C4, amended. The handler answers every \<open>RuntimeError\<close> with 502 and the
  error's message as detail: the client's HTTP-status, transport and malformed-response
  errors, and the error of a client that was not opened, which is of the same kind. Every
  other exception is answered with 500 and the fixed detail \<^verbatim>\<open>Internal server error\<close>,
  whatever the exception was. For a handled request this gives the whole table of
  outcomes from what the upstream call and the extraction produce.
\<close>

theorem handler_error_mapping:
  "generate_response_except (RuntimeError m) = HTTPException 502 m
   \<and> ((\<forall>m'. e \<noteq> RuntimeError m') \<longrightarrow>
         generate_response_except e = HTTPException 500 ''Internal server error'')
   \<and> (client self = None \<longrightarrow>
         fst (generate up self P tr) = Inl (RuntimeError not_opened_msg))
   \<and> (POST rq \<in> set (snd (generate_response chk up s request [])) \<longrightarrow>
         fst (generate_response chk up s request []) =
           (case and_then (up rq) try_body of
              Inl (HTTPStatusError code) \<Rightarrow>
                Inl (HTTPException 502 (''LLM API error: '' @ str_int code))
            | Inl (RequestError msg) \<Rightarrow> Inl (HTTPException 502 (''Request failed: '' @ msg))
            | Inl KeyError \<Rightarrow> Inl (HTTPException 502 ''Invalid response format from LLM API'')
            | Inl IndexError \<Rightarrow> Inl (HTTPException 502 ''Invalid response format from LLM API'')
            | Inl (RuntimeError msg) \<Rightarrow> Inl (HTTPException 502 msg)
            | Inl other \<Rightarrow> Inl (HTTPException 500 ''Internal server error'')
            | Inr (PyStr R) \<Rightarrow> Inr \<lparr>response = R\<rparr>
            | Inr v \<Rightarrow> Inl (HTTPException 500 ''Internal server error'')))"
proof (intro conjI impI)
  show "generate_response_except (RuntimeError m) = HTTPException 502 m" by simp
next
  assume "\<forall>m'. e \<noteq> RuntimeError m'"
  then show "generate_response_except e = HTTPException 500 ''Internal server error''"
    by (cases e) simp_all
next
  assume "client self = None"
  then show "fst (generate up self P tr) = Inl (RuntimeError not_opened_msg)"
    by (simp add: generate_unopened)
next
  let ?rq = "\<lparr>rq_base_url = llm_base_url s,
               rq_headers = [(''Authorization'', ''Bearer '' @ llm_api_key s),
                             (''Content-Type'', ''application/json'')],
               rq_path = ''/v1/chat/completions'',
               rq_json = payload (LLMClient_init s) (prompt request)\<rparr>"
  assume sent: "POST rq \<in> set (snd (generate_response chk up s request []))"
  note built = generate_response_sent [OF sent]
  from sent have rq: "rq = ?rq"
    by (simp add: generate_response_run [where chk = chk and s = s, OF built] Let_def)
  show "fst (generate_response chk up s request []) =
           (case and_then (up rq) try_body of
              Inl (HTTPStatusError code) \<Rightarrow>
                Inl (HTTPException 502 (''LLM API error: '' @ str_int code))
            | Inl (RequestError msg) \<Rightarrow> Inl (HTTPException 502 (''Request failed: '' @ msg))
            | Inl KeyError \<Rightarrow> Inl (HTTPException 502 ''Invalid response format from LLM API'')
            | Inl IndexError \<Rightarrow> Inl (HTTPException 502 ''Invalid response format from LLM API'')
            | Inl (RuntimeError msg) \<Rightarrow> Inl (HTTPException 502 msg)
            | Inl other \<Rightarrow> Inl (HTTPException 500 ''Internal server error'')
            | Inr (PyStr R) \<Rightarrow> Inr \<lparr>response = R\<rparr>
            | Inr v \<Rightarrow> Inl (HTTPException 500 ''Internal server error''))"
    unfolding rq
    by (simp add: generate_response_run [where chk = chk and s = s, OF built] Let_def PromptResponse_init_def
        split: sum.splits pyexc.splits pyval.splits)
qed

theorem handler_error_mapping_witness:
  "generate_response_except TypeError = HTTPException 500 ''Internal server error''
   \<and> fst (generate (stub_upstream 200 None) (LLMClient_init example_settings) ''Hello'' [])
       = Inl (RuntimeError not_opened_msg)
   \<and> fst (generate_response accepts_all (\<lambda>rq. Inl (RequestError ''timed out'')) example_settings
           \<lparr>prompt = ''Hello''\<rparr> []) = Inl (HTTPException 502 ''Request failed: timed out'')"
proof -
  let ?up = "\<lambda>rq::http_request. (Inl (RequestError ''timed out'') :: pyexc + http_response)"
  let ?rq = "build_request (the (client opened_client)) ''/v1/chat/completions''
               (payload opened_client ''Hello'')"
  note h = handler_error_mapping [where e = TypeError
      and self = "LLMClient_init example_settings" and P = "''Hello''" and tr = "[]"
      and rq = ?rq and s = example_settings and request = "\<lparr>prompt = ''Hello''\<rparr>"
      and chk = accepts_all]
  have a: "\<forall>m'. TypeError \<noteq> RuntimeError m'" by simp
  have b: "client (LLMClient_init example_settings) = None"
    by (simp add: LLMClient_init_def)
  have c: "POST ?rq \<in> set (snd (generate_response accepts_all ?up example_settings
             \<lparr>prompt = ''Hello''\<rparr> []))"
    by (simp add: generate_response_run fixture_defs build_request_def payload_def)
  from h [where up = "stub_upstream 200 None"] a b
  have "generate_response_except TypeError = HTTPException 500 ''Internal server error''
   \<and> fst (generate (stub_upstream 200 None) (LLMClient_init example_settings) ''Hello'' [])
       = Inl (RuntimeError not_opened_msg)"
    by simp
  moreover from h [where up = ?up] c
  have "fst (generate_response accepts_all ?up example_settings \<lparr>prompt = ''Hello''\<rparr> []) =
          Inl (HTTPException 502 ''Request failed: timed out'')"
    by (simp add: and_then_def)
  ultimately show ?thesis by simp
qed

section \<open>Use before open\<close>

text \<open>
  Claim C5. A client as the constructor leaves it has no connection handle, and on any
  client without a handle \<open>generate\<close> fails at once with the precondition error, for every
  prompt and whatever the upstream would answer; the log of effects is returned as it
  was, so no request is sent.
\<close>

theorem generate_before_open_fails_without_request:
  "client (LLMClient_init s) = None
   \<and> (client self = None \<longrightarrow>
         fst (generate up self P tr) =
           Inl (RuntimeError ''LLMClient must be used as an async context manager'')
         \<and> snd (snd (generate up self P tr)) = tr)"
  by (simp add: generate_def LLMClient_init_def not_opened_msg_def)

theorem generate_before_open_fails_without_request_witness:
  "fst (generate (stub_upstream 200 (Some (chat_completion (PyStr ''Hi there''))))
          (LLMClient_init example_settings) ''Hello'' []) =
     Inl (RuntimeError ''LLMClient must be used as an async context manager'')
   \<and> snd (snd (generate (stub_upstream 200 (Some (chat_completion (PyStr ''Hi there''))))
          (LLMClient_init example_settings) ''Hello'' [])) = []"
  using generate_before_open_fails_without_request
    [of example_settings "LLMClient_init example_settings"
        "stub_upstream 200 (Some (chat_completion (PyStr ''Hi there'')))" "''Hello''" "[]"]
  by simp

section \<open>The request that goes out\<close>

text \<open>
  Claim C6. On an open client a call of \<open>generate\<close> adds exactly one effect to the log,
  a POST to \<^verbatim>\<open>/v1/chat/completions\<close> whose JSON body is the model name under
  \<^verbatim>\<open>model\<close> and, under \<^verbatim>\<open>messages\<close>, the one message with role \<^verbatim>\<open>user\<close> and the
  prompt as content. The upstream is arbitrary here: whatever it answers or raises, there
  is one request and no second attempt.
\<close>

theorem generate_sends_one_post:
  assumes "client self = Some ac" and "ac_state ac \<noteq> CLOSED"
  shows "snd (snd (generate up self P tr)) =
           tr @ [POST \<lparr>rq_base_url = ac_base_url ac, rq_headers = ac_headers ac,
                        rq_path = ''/v1/chat/completions'',
                        rq_json = PyDict [(''model'', PyStr (model_name self)),
                                          (''messages'',
                                           PyList [PyDict [(''role'', PyStr ''user''),
                                                           (''content'', PyStr P)]])]\<rparr>]"
  using assms by (simp add: generate_open build_request_def payload_def)

theorem generate_sends_one_post_witness:
  "snd (snd (generate (stub_upstream 500 None) opened_client ''Hello'' [])) =
     [POST \<lparr>rq_base_url = ''https://api.groq.com/openai'',
             rq_headers = [(''Authorization'', ''Bearer sk-test''),
                           (''Content-Type'', ''application/json'')],
             rq_path = ''/v1/chat/completions'',
             rq_json = PyDict [(''model'', PyStr ''kimi-k2''),
                               (''messages'',
                                PyList [PyDict [(''role'', PyStr ''user''),
                                                (''content'', PyStr ''Hello'')]])]\<rparr>]"
proof -
  let ?ac = "\<lparr>ac_base_url = ''https://api.groq.com/openai'',
              ac_headers = [(''Authorization'', ''Bearer sk-test''),
                            (''Content-Type'', ''application/json'')],
              ac_timeout = 60, ac_state = UNOPENED\<rparr>"
  have a: "client opened_client = Some ?ac"
    by (simp add: fixture_defs)
  have b: "ac_state ?ac \<noteq> CLOSED" by simp
  have c: "model_name opened_client = ''kimi-k2''"
    by (simp add: fixture_defs)
  from generate_sends_one_post [OF a b, of "stub_upstream 500 None" "''Hello''" "[]"] c
  show ?thesis by simp
qed

section \<open>Release of the connection\<close>

lemma aexit_unopened: "client c = None \<Longrightarrow> aexit c tr = (c, tr)"
  by (simp add: aexit_def)

lemma aexit_handle:
  "client c = Some ac \<Longrightarrow>
     client (fst (aexit c tr)) = Some (ac\<lparr>ac_state := CLOSED\<rparr>)"
  by (cases "ac_state ac = CLOSED") (simp_all add: aexit_def aclose_def)

lemma aexit_twice: "aexit (fst (aexit c tr)) (snd (aexit c tr)) = aexit c tr"
proof (cases "client c")
  case None
  then show ?thesis by (simp add: aexit_unopened)
next
  case (Some ac)
  then show ?thesis
    by (cases "ac_state ac = CLOSED") (simp_all add: aexit_def aclose_def)
qed

text \<open>
  Claim C7. A handled request has two shapes of log, whatever the upstream does and
  whatever the outcome is (a response, a 502 or a 500). When the connection object is
  constructed, the request adds the client, the connection acquired, the one request,
  and the release of the connection as the last effect: the connection acquired for the
  request is released exactly once before the request completes. When the constructor
  raises, the request adds the client only: no connection was acquired and none is
  released, and the exception is answered by the handler. So in every handled request
  each acquired connection has exactly one release, after it, and nothing is released
  that was not acquired. Leaving a client a second time changes nothing more, and leaving
  a client that was never entered changes nothing at all.
\<close>

theorem connection_released_exactly_once:
  "(chk (llm_base_url s) [(''Authorization'', ''Bearer '' @ llm_api_key s),
        (''Content-Type'', ''application/json'')] (api_timeout s) = None \<longrightarrow>
      (\<exists>b hs t rq. snd (generate_response chk up s request tr) =
          tr @ [NewLLMClient, NewAsyncClient b hs t, POST rq, Released])
      \<and> count_list (drop (length tr) (snd (generate_response chk up s request tr))) Released = 1)
   \<and> (chk (llm_base_url s) [(''Authorization'', ''Bearer '' @ llm_api_key s),
        (''Content-Type'', ''application/json'')] (api_timeout s) = Some e \<longrightarrow>
      generate_response chk up s request tr =
        (Inl (generate_response_except e), tr @ [NewLLMClient]))
   \<and> count_list (drop (length tr) (snd (generate_response chk up s request tr))) Released
       = length (filter (\<lambda>ev. \<exists>b hs t. ev = NewAsyncClient b hs t)
           (drop (length tr) (snd (generate_response chk up s request tr))))
   \<and> aexit (fst (aexit c tr)) (snd (aexit c tr)) = aexit c tr
   \<and> (client c = None \<longrightarrow> aexit c tr = (c, tr))"
proof (intro conjI impI)
  assume built: "chk (llm_base_url s) [(''Authorization'', ''Bearer '' @ llm_api_key s),
        (''Content-Type'', ''application/json'')] (api_timeout s) = None"
  show "\<exists>b hs t rq. snd (generate_response chk up s request tr) =
          tr @ [NewLLMClient, NewAsyncClient b hs t, POST rq, Released]"
    by (simp add: generate_response_run [where chk = chk and s = s, OF built] Let_def)
  show "count_list (drop (length tr) (snd (generate_response chk up s request tr))) Released = 1"
    by (simp add: generate_response_run [where chk = chk and s = s, OF built] Let_def)
next
  assume "chk (llm_base_url s) [(''Authorization'', ''Bearer '' @ llm_api_key s),
        (''Content-Type'', ''application/json'')] (api_timeout s) = Some e"
  then show "generate_response chk up s request tr =
        (Inl (generate_response_except e), tr @ [NewLLMClient])"
    by (simp add: generate_response_refused)
next
  show "count_list (drop (length tr) (snd (generate_response chk up s request tr))) Released
       = length (filter (\<lambda>ev. \<exists>b hs t. ev = NewAsyncClient b hs t)
           (drop (length tr) (snd (generate_response chk up s request tr))))"
  proof (cases "chk (llm_base_url s) [(''Authorization'', ''Bearer '' @ llm_api_key s),
        (''Content-Type'', ''application/json'')] (api_timeout s)")
    case None
    then show ?thesis by (simp add: generate_response_run Let_def)
  next
    case (Some e')
    then show ?thesis by (simp add: generate_response_refused)
  qed
next
  show "aexit (fst (aexit c tr)) (snd (aexit c tr)) = aexit c tr"
    by (rule aexit_twice)
next
  assume "client c = None"
  then show "aexit c tr = (c, tr)" by (rule aexit_unopened)
qed

theorem connection_released_exactly_once_witness:
  "aexit (LLMClient_init example_settings) [] = (LLMClient_init example_settings, [])
   \<and> count_list (snd (generate_response accepts_all (stub_upstream 500 None) example_settings
         \<lparr>prompt = ''Hello''\<rparr> [])) Released = 1
   \<and> generate_response (refuses_url ''https://api.groq.com/openai'') (stub_upstream 200 None)
         example_settings \<lparr>prompt = ''Hello''\<rparr> []
       = (Inl (HTTPException 500 ''Internal server error''), [NewLLMClient])"
proof -
  let ?hs = "[(''Authorization'', ''Bearer '' @ llm_api_key example_settings),
              (''Content-Type'', ''application/json'')]"
  have a: "client (LLMClient_init example_settings) = None"
    by (simp add: LLMClient_init_def)
  have b: "accepts_all (llm_base_url example_settings) ?hs (api_timeout example_settings) = None"
    by (simp add: accepts_all_def)
  have c: "refuses_url ''https://api.groq.com/openai'' (llm_base_url example_settings) ?hs
             (api_timeout example_settings) = Some (OtherException ''InvalidURL'')"
    by (simp add: refuses_url_def example_settings_def)
  from connection_released_exactly_once
    [where chk = accepts_all and up = "stub_upstream 500 None" and s = example_settings
       and request = "\<lparr>prompt = ''Hello''\<rparr>" and tr = "[]"
       and c = "LLMClient_init example_settings"] a b
  have "aexit (LLMClient_init example_settings) [] = (LLMClient_init example_settings, [])
   \<and> count_list (snd (generate_response accepts_all (stub_upstream 500 None) example_settings
         \<lparr>prompt = ''Hello''\<rparr> [])) Released = 1"
    by simp
  moreover from connection_released_exactly_once
    [where chk = "refuses_url ''https://api.groq.com/openai''" and up = "stub_upstream 200 None"
       and s = example_settings and request = "\<lparr>prompt = ''Hello''\<rparr>" and tr = "[]"
       and e = "OtherException ''InvalidURL''"] c
  have "generate_response (refuses_url ''https://api.groq.com/openai'') (stub_upstream 200 None)
         example_settings \<lparr>prompt = ''Hello''\<rparr> []
       = (Inl (HTTPException 500 ''Internal server error''), [NewLLMClient])"
    by simp
  ultimately show ?thesis by simp
qed

section \<open>Validation of the inbound request\<close>

text \<open>
  Claim C9. A request body whose \<^verbatim>\<open>prompt\<close> is the empty string is answered by
  validation and leaves the log of effects as it was: no client is constructed and no
  request is sent. A request that validation lets through has a prompt of length at
  least 1, and whenever the route produced any effect its body had such a prompt.
\<close>

theorem empty_prompt_rejected_before_client:
  "(map_of kvs ''prompt'' = Some (PyStr []) \<longrightarrow>
      post_generate chk up s (PyDict kvs) tr = (Unprocessable, tr))
   \<and> (PromptRequest_validate b = Inr request \<longrightarrow> 1 \<le> length (prompt request))
   \<and> (snd (post_generate chk up s b tr) \<noteq> tr \<longrightarrow>
        (\<exists>request. PromptRequest_validate b = Inr request \<and> 1 \<le> length (prompt request)))"
proof (intro conjI impI)
  assume "map_of kvs ''prompt'' = Some (PyStr [])"
  then show "post_generate chk up s (PyDict kvs) tr = (Unprocessable, tr)"
    by (simp add: post_generate_def PromptRequest_validate_def)
next
  assume "PromptRequest_validate b = Inr request"
  then show "1 \<le> length (prompt request)"
    by (auto simp add: PromptRequest_validate_def
        split: pyval.splits option.splits if_splits)
next
  assume ran: "snd (post_generate chk up s b tr) \<noteq> tr"
  show "\<exists>request. PromptRequest_validate b = Inr request \<and> 1 \<le> length (prompt request)"
  proof (cases "PromptRequest_validate b")
    case (Inl e)
    with ran show ?thesis by (simp add: post_generate_def)
  next
    case (Inr request)
    then have "1 \<le> length (prompt request)"
      by (auto simp add: PromptRequest_validate_def
          split: pyval.splits option.splits if_splits)
    with Inr show ?thesis by simp
  qed
qed

theorem empty_prompt_rejected_before_client_witness:
  "post_generate accepts_all (stub_upstream 200 (Some (chat_completion (PyStr ''Hi there'')))) example_settings
     (PyDict [(''prompt'', PyStr [])]) [] = (Unprocessable, [])
   \<and> PromptRequest_validate (PyDict [(''prompt'', PyStr ''Hello'')]) = Inr \<lparr>prompt = ''Hello''\<rparr>
   \<and> 1 \<le> length (prompt \<lparr>prompt = ''Hello''\<rparr>)
   \<and> snd (post_generate accepts_all (stub_upstream 200 (Some (chat_completion (PyStr ''Hi there''))))
        example_settings (PyDict [(''prompt'', PyStr ''Hello'')]) []) \<noteq> []"
proof -
  let ?up = "stub_upstream 200 (Some (chat_completion (PyStr ''Hi there'')))"
  have a: "map_of [(''prompt'', PyStr [])] ''prompt'' = Some (PyStr [])" by simp
  have b: "PromptRequest_validate (PyDict [(''prompt'', PyStr ''Hello'')]) =
             Inr \<lparr>prompt = ''Hello''\<rparr>"
    by (simp add: PromptRequest_validate_def)
  have c: "snd (post_generate accepts_all ?up example_settings (PyDict [(''prompt'', PyStr ''Hello'')]) [])
             \<noteq> []"
    by (simp add: post_generate_def b generate_response_run accepts_all_def Let_def
        split: sum.splits http_exception.splits)
  from empty_prompt_rejected_before_client
    [where kvs = "[(''prompt'', PyStr [])]" and up = ?up and s = example_settings and tr = "[]"
       and b = "PyDict [(''prompt'', PyStr ''Hello'')]" and request = "\<lparr>prompt = ''Hello''\<rparr>"]
    a b c
  show ?thesis by simp
qed

section \<open>Use after close\<close>

text \<open>
  Claim C10. Leaving a client that had been entered keeps its connection handle: the
  handle is closed, not cleared. A later call of \<open>generate\<close> therefore passes the guard
  that raises the precondition error, and whatever the call then yields, it is not that
  error.
\<close>

theorem generate_after_close_passes_guard:
  assumes "client c = Some ac"
  shows "client (fst (aexit c tr)) \<noteq> None
       \<and> fst (generate up (fst (aexit c tr)) P tr') \<noteq>
           Inl (RuntimeError ''LLMClient must be used as an async context manager'')"
proof -
  have h: "client (fst (aexit c tr)) = Some (ac\<lparr>ac_state := CLOSED\<rparr>)"
    using assms by (rule aexit_handle)
  have "fst (generate up (fst (aexit c tr)) P tr') =
          Inl (RuntimeError ''Cannot send a request, as the client has been closed.'')"
    by (simp add: generate_closed [OF h])
  with h show ?thesis by simp
qed

theorem generate_after_close_passes_guard_witness:
  "client (fst (aexit opened_client [])) \<noteq> None
   \<and> fst (generate (stub_upstream 200 None) (fst (aexit opened_client [])) ''Hello'' []) \<noteq>
       Inl (RuntimeError ''LLMClient must be used as an async context manager'')"
proof -
  have "client opened_client =
          Some \<lparr>ac_base_url = ''https://api.groq.com/openai'',
                ac_headers = [(''Authorization'', ''Bearer sk-test''),
                              (''Content-Type'', ''application/json'')],
                ac_timeout = 60, ac_state = UNOPENED\<rparr>"
    by (simp add: fixture_defs)
  from generate_after_close_passes_guard [OF this, of "[]" "stub_upstream 200 None" "''Hello''" "[]"]
  show ?thesis .
qed

section \<open>Loading the configuration\<close>

lemma parse_env_vars_None:
  "parse_env_vars vars name = None \<longleftrightarrow> name \<notin> lower ` fst ` set vars"
  by (force simp add: parse_env_vars_def map_of_eq_None_iff image_iff)

lemma parse_env_vars_rename:
  assumes "\<And>k. lower (f k) = lower k"
  shows "parse_env_vars (map (\<lambda>(k, v). (f k, v)) vars) = parse_env_vars vars"
proof -
  have "(\<lambda>(k, v). (lower k, v)) \<circ> (\<lambda>(k, v). (f k, v)) = (\<lambda>(k, v :: string). (lower k, v))"
    using assms by (auto simp add: fun_eq_iff)
  then show ?thesis by (simp add: parse_env_vars_def)
qed

lemma parse_env_vars_other:
  assumes "lower k \<noteq> name"
  shows "parse_env_vars (before @ (k, v) # after) name = parse_env_vars (before @ after) name"
  using assms by (auto simp add: parse_env_vars_def map_add_def split: option.splits)

lemma field_value_None:
  "field_value environ dotenv name = None \<longleftrightarrow>
     name \<notin> lower ` fst ` set environ \<and> name \<notin> lower ` fst ` set dotenv"
  by (auto simp add: field_value_def parse_env_vars_None [symmetric] split: option.splits)

text \<open>
  Claim C8. Loading fails with a validation error, so the module that builds
  \<^verbatim>\<open>settings\<close> cannot be imported and the process does not start, whenever one of
  \<^verbatim>\<open>llm_api_key\<close>, \<^verbatim>\<open>llm_base_url\<close>, \<^verbatim>\<open>llm_model\<close> has no variable in the
  environment sources (the process environment and the \<^verbatim>\<open>.env\<close> file the class
  names). With the three present and no \<^verbatim>\<open>api_timeout\<close>, loading succeeds with a
  timeout of 60. Names are matched without regard to case: renaming variables in a way
  that keeps their lower-cased names changes nothing. A variable whose lower-cased name
  is no field of the class changes nothing either.
\<close>

theorem settings_loading:
  "(required \<in> {''llm_api_key'', ''llm_base_url'', ''llm_model''}
      \<and> required \<notin> lower ` fst ` set environ \<and> required \<notin> lower ` fst ` set dotenv
      \<longrightarrow> Settings_init int_validate environ dotenv = Inl ValidationError)
   \<and> ({''llm_api_key'', ''llm_base_url'', ''llm_model''}
         \<subseteq> lower ` fst ` set environ \<union> lower ` fst ` set dotenv
      \<and> ''api_timeout'' \<notin> lower ` fst ` set environ
      \<and> ''api_timeout'' \<notin> lower ` fst ` set dotenv
      \<longrightarrow> (\<exists>s. Settings_init int_validate environ dotenv = Inr s \<and> api_timeout s = 60))
   \<and> ((\<forall>k. lower (f k) = lower k)
      \<longrightarrow> Settings_init int_validate (map (\<lambda>(k, v). (f k, v)) environ)
            (map (\<lambda>(k, v). (f k, v)) dotenv) = Settings_init int_validate environ dotenv)
   \<and> (lower k \<notin> {''llm_api_key'', ''llm_base_url'', ''llm_model'', ''api_timeout'',
                   ''llm_provider''}
      \<longrightarrow> Settings_init int_validate (before @ (k, v) # after) dotenv
            = Settings_init int_validate (before @ after) dotenv
        \<and> Settings_init int_validate environ (before @ (k, v) # after)
            = Settings_init int_validate environ (before @ after))"
proof (intro conjI impI)
  assume "required \<in> {''llm_api_key'', ''llm_base_url'', ''llm_model''}
      \<and> required \<notin> lower ` fst ` set environ \<and> required \<notin> lower ` fst ` set dotenv"
  then have req: "required = ''llm_api_key'' \<or> required = ''llm_base_url''
                    \<or> required = ''llm_model''"
    and none: "field_value environ dotenv required = None"
    by (simp_all only: field_value_None insert_iff empty_iff simp_thms)
  from req none have "field_value environ dotenv ''llm_api_key'' = None
           \<or> field_value environ dotenv ''llm_base_url'' = None
           \<or> field_value environ dotenv ''llm_model'' = None"
    by (elim disjE) (simp_all only: simp_thms)
  then show "Settings_init int_validate environ dotenv = Inl ValidationError"
    by (elim disjE) (simp_all add: Settings_init_def split: option.splits)
next
  assume h: "{''llm_api_key'', ''llm_base_url'', ''llm_model''}
         \<subseteq> lower ` fst ` set environ \<union> lower ` fst ` set dotenv
      \<and> ''api_timeout'' \<notin> lower ` fst ` set environ
      \<and> ''api_timeout'' \<notin> lower ` fst ` set dotenv"
  then have "field_value environ dotenv ''api_timeout'' = None"
    by (simp add: field_value_None)
  moreover from h have "field_value environ dotenv ''llm_api_key'' \<noteq> None"
    "field_value environ dotenv ''llm_base_url'' \<noteq> None"
    "field_value environ dotenv ''llm_model'' \<noteq> None"
    unfolding field_value_None by blast+
  ultimately show "\<exists>s. Settings_init int_validate environ dotenv = Inr s \<and> api_timeout s = 60"
    by (auto simp add: Settings_init_def)
next
  assume "\<forall>k. lower (f k) = lower k"
  then have pr: "parse_env_vars (map (\<lambda>(k, v). (f k, v)) vars) = parse_env_vars vars" for vars
    by (simp add: parse_env_vars_rename)
  have fv: "field_value (map (\<lambda>(k, v). (f k, v)) environ)
              (map (\<lambda>(k, v). (f k, v)) dotenv) name = field_value environ dotenv name" for name
    unfolding field_value_def pr ..
  show "Settings_init int_validate (map (\<lambda>(k, v). (f k, v)) environ)
            (map (\<lambda>(k, v). (f k, v)) dotenv) = Settings_init int_validate environ dotenv"
    unfolding Settings_init_def fv ..
next
  assume h: "lower k \<notin> {''llm_api_key'', ''llm_base_url'', ''llm_model'', ''api_timeout'',
                   ''llm_provider''}"
  have pe: "parse_env_vars (before @ (k, v) # after) name = parse_env_vars (before @ after) name"
    if "name \<in> {''llm_api_key'', ''llm_base_url'', ''llm_model'', ''api_timeout'',
                   ''llm_provider''}" for name
    using h that by (intro parse_env_vars_other) auto
  have fv1: "field_value (before @ (k, v) # after) dotenv name
               = field_value (before @ after) dotenv name"
    and fv2: "field_value environ (before @ (k, v) # after) name
               = field_value environ (before @ after) name"
    if "name \<in> {''llm_api_key'', ''llm_base_url'', ''llm_model'', ''api_timeout'',
                   ''llm_provider''}" for name
    unfolding field_value_def pe [OF that] by (rule refl)+
  have names: "''llm_api_key'' \<in> {''llm_api_key'', ''llm_base_url'', ''llm_model'',
                   ''api_timeout'', ''llm_provider''}"
    "''llm_base_url'' \<in> {''llm_api_key'', ''llm_base_url'', ''llm_model'',
                   ''api_timeout'', ''llm_provider''}"
    "''llm_model'' \<in> {''llm_api_key'', ''llm_base_url'', ''llm_model'',
                   ''api_timeout'', ''llm_provider''}"
    "''api_timeout'' \<in> {''llm_api_key'', ''llm_base_url'', ''llm_model'',
                   ''api_timeout'', ''llm_provider''}"
    "''llm_provider'' \<in> {''llm_api_key'', ''llm_base_url'', ''llm_model'',
                   ''api_timeout'', ''llm_provider''}"
    by simp_all
  show "Settings_init int_validate (before @ (k, v) # after) dotenv
            = Settings_init int_validate (before @ after) dotenv"
    unfolding Settings_init_def names [THEN fv1] ..
  show "Settings_init int_validate environ (before @ (k, v) # after)
            = Settings_init int_validate environ (before @ after)"
    unfolding Settings_init_def names [THEN fv2] ..
qed

theorem settings_loading_witness:
  "Settings_init (\<lambda>t. None)
     [(''LLM_API_KEY'', ''sk-test''), (''LLM_BASE_URL'', ''https://api.groq.com/openai'')] []
     = Inl ValidationError
   \<and> Settings_init (\<lambda>t. None)
       [(''LLM_API_KEY'', ''sk-test''), (''PATH'', ''/usr/bin''),
        (''Llm_Base_Url'', ''https://api.groq.com/openai'')]
       [(''llm_model'', ''kimi-k2'')]
     = Inr example_settings"
proof -
  let ?iv = "\<lambda>t::string. (None :: int option)"
  let ?e1 = "[(''LLM_API_KEY'', ''sk-test''), (''LLM_BASE_URL'', ''https://api.groq.com/openai'')]"
  let ?e2 = "[(''llm_api_key'', ''sk-test''), (''llm_base_url'', ''https://api.groq.com/openai'')]"
  let ?e3 = "[(''LLM_API_KEY'', ''sk-test''), (''Llm_Base_Url'', ''https://api.groq.com/openai'')]"
  let ?d = "[(''llm_model'', ''kimi-k2'')]"
  let ?f = "\<lambda>k. if k = ''llm_api_key'' then ''LLM_API_KEY''
                else if k = ''llm_base_url'' then ''Llm_Base_Url'' else k"
  have l1: "lower ''LLM_API_KEY'' = ''llm_api_key''"
    and l2: "lower ''LLM_BASE_URL'' = ''llm_base_url''"
    and l3: "lower ''Llm_Base_Url'' = ''llm_base_url''"
    and l4: "lower ''llm_api_key'' = ''llm_api_key''"
    and l5: "lower ''llm_base_url'' = ''llm_base_url''"
    and l6: "lower ''llm_model'' = ''llm_model''"
    and l7: "lower ''PATH'' = ''path''"
    by (simp_all add: lower_def lower_char_def)
  have low: "\<forall>k. lower (?f k) = lower k"
    by (simp add: l1 l3 l4 l5)
  have absent: "''llm_model'' \<in> {''llm_api_key'', ''llm_base_url'', ''llm_model''}
      \<and> ''llm_model'' \<notin> lower ` fst ` set ?e1 \<and> ''llm_model'' \<notin> lower ` fst ` set []"
    by (simp add: l1 l2)
  have present: "{''llm_api_key'', ''llm_base_url'', ''llm_model''}
         \<subseteq> lower ` fst ` set ?e2 \<union> lower ` fst ` set ?d
      \<and> ''api_timeout'' \<notin> lower ` fst ` set ?e2
      \<and> ''api_timeout'' \<notin> lower ` fst ` set ?d"
    by (simp add: l4 l5 l6)
  have unknown: "lower ''PATH'' \<notin> {''llm_api_key'', ''llm_base_url'', ''llm_model'',
                   ''api_timeout'', ''llm_provider''}"
    by (simp add: l7)
  note t = settings_loading [where int_validate = ?iv]
  have w1: "Settings_init ?iv ?e1 [] = Inl ValidationError"
    by (rule t [where required = "''llm_model''" and environ = ?e1 and dotenv = "[]",
          THEN conjunct1, THEN mp, OF absent])
  from t [where environ = ?e2 and dotenv = ?d, THEN conjunct2, THEN conjunct1, THEN mp,
       OF present]
  obtain s where s: "Settings_init ?iv ?e2 ?d = Inr s" "api_timeout s = 60" by (elim exE conjE)
  have "Settings_init ?iv (map (\<lambda>(k, v). (?f k, v)) ?e2) (map (\<lambda>(k, v). (?f k, v)) ?d)
          = Settings_init ?iv ?e2 ?d"
    by (rule t [where f = ?f and environ = ?e2 and dotenv = ?d, THEN conjunct2, THEN conjunct2,
          THEN conjunct1, THEN mp, OF low])
  then have renamed: "Settings_init ?iv ?e3 ?d = Settings_init ?iv ?e2 ?d"
    by simp
  have "Settings_init ?iv
       ([(''LLM_API_KEY'', ''sk-test'')] @ (''PATH'', ''/usr/bin'') #
        [(''Llm_Base_Url'', ''https://api.groq.com/openai'')]) ?d
       = Settings_init ?iv
       ([(''LLM_API_KEY'', ''sk-test'')] @ [(''Llm_Base_Url'', ''https://api.groq.com/openai'')]) ?d"
    by (rule t [where k = "''PATH''" and v = "''/usr/bin''"
          and before = "[(''LLM_API_KEY'', ''sk-test'')]"
          and after = "[(''Llm_Base_Url'', ''https://api.groq.com/openai'')]"
          and dotenv = ?d, THEN conjunct2, THEN conjunct2, THEN conjunct2, THEN mp,
          OF unknown, THEN conjunct1])
  then have extra: "Settings_init ?iv
       [(''LLM_API_KEY'', ''sk-test''), (''PATH'', ''/usr/bin''),
        (''Llm_Base_Url'', ''https://api.groq.com/openai'')] ?d = Settings_init ?iv ?e3 ?d"
    by simp
  have "Settings_init ?iv ?e2 ?d = Inr example_settings"
    using s by (simp add: Settings_init_def field_value_def parse_env_vars_def
        example_settings_def l4 l5 l6)
  with w1 extra renamed show ?thesis by (simp only: simp_thms)
qed

end
